theory Spec2Isabelle
  imports Main
begin

section \<open>Platform objects used by the scan page\<close>

text \<open>
  The page \<^verbatim>\<open>src/app/qr-scan/page.tsx\<close> is a React component. Its state hooks and refs are
  the fields of one record, its functions take that record and return the updated one.
  The browser and the decoding library are outside the repository: each call into them
  takes the outcome the platform produced as an extra argument, so that every theorem
  holds for whatever the platform answers.

  Strings are byte strings (a label in UTF-8). The three words the page looks for are
  ASCII, and a multi-byte UTF-8 sequence holds no ASCII byte, so searching bytes finds
  the same labels as searching UTF-16 code units.
\<close>

datatype MediaDeviceKind = audioinput | audiooutput | videoinput

record MediaDeviceInfo =
  deviceId :: string
  label :: string
  kind :: MediaDeviceKind

type_synonym track = nat

datatype MediaStream = MediaStream (getTracks: "track list")

record HTMLVideoElement =
  srcObject :: "MediaStream option"

text \<open>
  A thrown value, as far as the page looks at it: its \<^verbatim>\<open>message\<close> property when it has
  one, and what \<^verbatim>\<open>String(e)\<close> gives.
\<close>

datatype thrown = Thrown (message: "string option") (String: string)

text \<open>\<^verbatim>\<open>e?.message || String(e)\<close>: an absent or empty message falls through to \<^verbatim>\<open>String(e)\<close>.\<close>

definition message_or_String :: "thrown \<Rightarrow> string" where
  "message_or_String e =
     (case message e of
        None \<Rightarrow> String e
      | Some m \<Rightarrow> if m = [] then String e else m)"

text \<open>Truthiness of a \<^verbatim>\<open>string | undefined\<close>: \<^verbatim>\<open>undefined\<close> and the empty string are falsy.\<close>

definition truthy :: "string option \<Rightarrow> bool" where
  "truthy x = (case x of None \<Rightarrow> False | Some v \<Rightarrow> v \<noteq> [])"

subsection \<open>The decoding library\<close>

text \<open>
  \<^verbatim>\<open>BrowserMultiFormatReader\<close> comes from \<^verbatim>\<open>@zxing/library\<close>, whose code is not part of the
  repository. The page uses two of its methods, and the reader below is a stand-in that
  keeps only what the page's own functions need in order to be stated: a list of the
  loops it was asked to bind, which \<^verbatim>\<open>decodeFromVideoDevice\<close> extends and \<^verbatim>\<open>reset\<close> empties, a
  stream attached to the video element when a binding returns, and for each call the
  possibility that it throws. The library itself works asynchronously and releases what
  it holds before it attaches a new stream; how many loops the library keeps after a
  second binding is therefore not something this stand-in decides, and the theorem
  about the device change below concludes nothing from it: it is about which calls
  the page makes, and in which order.
\<close>

record BrowserMultiFormatReader =
  loops :: "string option list"

datatype reset_outcome = ResetReturns | ResetThrows thrown

datatype bind_outcome = BindReturns MediaStream | BindThrows thrown

definition reset :: "reset_outcome \<Rightarrow> BrowserMultiFormatReader \<Rightarrow> thrown + BrowserMultiFormatReader" where
  "reset ro r =
     (case ro of
        ResetThrows e \<Rightarrow> Inl e
      | ResetReturns \<Rightarrow> Inr (r\<lparr>loops := []\<rparr>))"

definition decodeFromVideoDevice ::
  "bind_outcome \<Rightarrow> string option \<Rightarrow> HTMLVideoElement \<Rightarrow> BrowserMultiFormatReader
     \<Rightarrow> thrown + (HTMLVideoElement \<times> BrowserMultiFormatReader)" where
  "decodeFromVideoDevice bo dev video r =
     (case bo of
        BindThrows e \<Rightarrow> Inl e
      | BindReturns stream \<Rightarrow>
          Inr (video\<lparr>srcObject := Some stream\<rparr>, r\<lparr>loops := loops r @ [dev]\<rparr>))"

datatype Result = Result (getText: string)

datatype decode_error = NotFoundException | OtherError thrown

subsection \<open>Exceptions\<close>

definition try_catch :: "thrown + 'a \<Rightarrow> (thrown \<Rightarrow> thrown + 'a) \<Rightarrow> thrown + 'a" where
  "try_catch body handler = (case body of Inl e \<Rightarrow> handler e | Inr x \<Rightarrow> Inr x)"

definition and_then :: "thrown + 'a \<Rightarrow> ('a \<Rightarrow> thrown + 'b) \<Rightarrow> thrown + 'b" where
  "and_then m k = (case m of Inl e \<Rightarrow> Inl e | Inr x \<Rightarrow> k x)"

section \<open>The state of the page\<close>

text \<open>
  Lines 7 to 14 of the page, plus what the page acts on outside itself:
  \<^item> \<open>cleanup\<close>: whether the last run of the effect of lines 60 to 66 returned its
    cleanup function (React calls it before the effect's next run);
  \<^item> \<open>ended\<close>: the media tracks that have been stopped;
  \<^item> \<open>saved\<close>: the files the browser was asked to save, as (name, contents);
  \<^item> \<open>clock\<close>: what \<^verbatim>\<open>Date.now()\<close> returns.
\<close>

record page =
  videoRef :: "HTMLVideoElement option"
  readerRef :: "BrowserMultiFormatReader option"
  cameras :: "MediaDeviceInfo list"
  selectedDeviceId :: "string option"
  scanning :: bool
  resultText :: string
  error :: string
  capturedImage :: string
  cleanup :: bool
  ended :: "track set"
  saved :: "(string \<times> string) list"
  clock :: nat

section \<open>Choosing the default camera\<close>

definition toLowerASCII :: "char \<Rightarrow> char" where
  "toLowerASCII c =
     (let n = (of_char c :: nat)
      in if 65 \<le> n \<and> n \<le> 90 then char_of (n + 32) else c)"

fun startsWith :: "string \<Rightarrow> string \<Rightarrow> bool" where
  "startsWith cs [] = True"
| "startsWith [] (p # ps) = False"
| "startsWith (c # cs) (p # ps) = (c = p \<and> startsWith cs ps)"

fun occurs_in :: "string \<Rightarrow> string \<Rightarrow> bool" where
  "occurs_in [] p = (p = [])"
| "occurs_in (c # cs) p = (startsWith (c # cs) p \<or> occurs_in cs p)"

text \<open>\<^verbatim>\<open>/back|rear|environment/i.test(label)\<close>: one of the three words occurs in the label,
  letters compared without case. The pattern has no \<^verbatim>\<open>u\<close> flag, so an ASCII letter of the
  pattern matches the same ASCII letter in either case and nothing else.\<close>

definition rear_test :: "string \<Rightarrow> bool" where
  "rear_test l =
     (let low = map toLowerASCII l
      in occurs_in low ''back'' \<or> occurs_in low ''rear'' \<or> occurs_in low ''environment'')"

definition backCam :: "MediaDeviceInfo list \<Rightarrow> MediaDeviceInfo option" where
  "backCam videoInputs = List.find (\<lambda>d. rear_test (label d)) videoInputs"

text \<open>\<^verbatim>\<open>videoInputs[0]?.deviceId\<close>\<close>

definition first_deviceId :: "MediaDeviceInfo list \<Rightarrow> string option" where
  "first_deviceId videoInputs = (case videoInputs of [] \<Rightarrow> None | d # ds \<Rightarrow> Some (deviceId d))"

text \<open>\<^verbatim>\<open>backCam?.deviceId || videoInputs[0]?.deviceId\<close> (line 45): \<^verbatim>\<open>||\<close> goes to its right
  side when there is no back camera and also when the back camera's id is empty.\<close>

definition defaultDeviceId :: "MediaDeviceInfo list \<Rightarrow> string option" where
  "defaultDeviceId videoInputs =
     (case backCam videoInputs of
        None \<Rightarrow> first_deviceId videoInputs
      | Some d \<Rightarrow> if deviceId d \<noteq> [] then Some (deviceId d) else first_deviceId videoInputs)"

section \<open>Starting and stopping\<close>

definition stopTracks :: "MediaStream \<Rightarrow> page \<Rightarrow> page" where
  "stopTracks stream s = s\<lparr>ended := ended s \<union> set (getTracks stream)\<rparr>"

text \<open>Lines 94 to 105.\<close>

definition stopScanning :: "reset_outcome \<Rightarrow> page \<Rightarrow> thrown + page" where
  "stopScanning ro s =
     (let s1 = s\<lparr>scanning := False\<rparr>
      in and_then
           (try_catch
              (case readerRef s1 of
                 None \<Rightarrow> Inr s1
               | Some r \<Rightarrow> and_then (reset ro r) (\<lambda>r'. Inr (s1\<lparr>readerRef := Some r'\<rparr>)))
              (\<lambda>e. Inr s1))
           (\<lambda>s2. case videoRef s2 of
                  None \<Rightarrow> Inr s2
                | Some video \<Rightarrow>
                    (case srcObject video of
                       None \<Rightarrow> Inr s2
                     | Some stream \<Rightarrow>
                         Inr ((stopTracks stream s2)\<lparr>videoRef := Some (video\<lparr>srcObject := None\<rparr>)\<rparr>))))"

text \<open>The callback of lines 78 to 86, which the library calls for each frame.\<close>

definition decodeCallback :: "Result option \<Rightarrow> decode_error option \<Rightarrow> page \<Rightarrow> page" where
  "decodeCallback result err s =
     (let s1 = (case result of None \<Rightarrow> s | Some r \<Rightarrow> s\<lparr>resultText := getText r\<rparr>)
      in case err of
           None \<Rightarrow> s1
         | Some NotFoundException \<Rightarrow> s1
         | Some (OtherError e) \<Rightarrow> s1\<lparr>error := message_or_String e\<rparr>)"

text \<open>Lines 68 to 92. \<^verbatim>\<open>deviceId ?? null\<close> keeps every string, the empty one too.\<close>

definition startScanning :: "bind_outcome \<Rightarrow> string option \<Rightarrow> page \<Rightarrow> thrown + page" where
  "startScanning bo dev s =
     (case videoRef s of
        None \<Rightarrow> Inr s
      | Some video \<Rightarrow>
          (case readerRef s of
             None \<Rightarrow> Inr s
           | Some r \<Rightarrow>
               (let s1 = s\<lparr>error := [], resultText := []\<rparr>;
                    s2 = s1\<lparr>scanning := True\<rparr>
                in try_catch
                     (and_then (decodeFromVideoDevice bo dev video r)
                        (\<lambda>(video', r'). Inr (s2\<lparr>videoRef := Some video', readerRef := Some r'\<rparr>)))
                     (\<lambda>e. Inr (s2\<lparr>error := message_or_String e, scanning := False\<rparr>)))))"

text \<open>
  \<^verbatim>\<open>setSelectedDeviceId\<close> followed by the effect of lines 60 to 66. React runs the effect
  only when the value changed; it first calls the cleanup the last run returned, then
  the body, which returns a cleanup only when the new id is truthy.
\<close>

definition setSelectedDeviceId ::
  "reset_outcome \<Rightarrow> bind_outcome \<Rightarrow> string option \<Rightarrow> page \<Rightarrow> thrown + page" where
  "setSelectedDeviceId ro bo newId s =
     (if selectedDeviceId s = newId then Inr s
      else and_then (if cleanup s then stopScanning ro s else Inr s)
             (\<lambda>s1. let s2 = s1\<lparr>selectedDeviceId := newId, cleanup := False\<rparr>
                   in if \<not> truthy newId then Inr s2
                      else and_then (startScanning bo newId s2)
                             (\<lambda>s3. Inr (s3\<lparr>cleanup := True\<rparr>))))"

text \<open>Lines 107 to 110: \<^verbatim>\<open>e.target.value || undefined\<close>.\<close>

definition handleDeviceChange ::
  "reset_outcome \<Rightarrow> bind_outcome \<Rightarrow> string \<Rightarrow> page \<Rightarrow> thrown + page" where
  "handleDeviceChange ro bo v s =
     setSelectedDeviceId ro bo (if v = [] then None else Some v) s"

section \<open>Permission and enumeration\<close>

datatype init_outcome =
    Unsupported
  | GetUserMediaRejects thrown
  | EnumerateRejects MediaStream thrown
  | Enumerates MediaStream "MediaDeviceInfo list"

text \<open>Lines 30 to 54, while the component is mounted (\<^verbatim>\<open>cancelled\<close> is false until teardown).\<close>

definition initDevices ::
  "init_outcome \<Rightarrow> reset_outcome \<Rightarrow> bind_outcome \<Rightarrow> page \<Rightarrow> thrown + page" where
  "initDevices io ro bo s =
     (case io of
        Unsupported \<Rightarrow> Inr (s\<lparr>error := ''This browser does not support camera access.''\<rparr>)
      | GetUserMediaRejects e \<Rightarrow> Inr (s\<lparr>error := message_or_String e\<rparr>)
      | EnumerateRejects stream e \<Rightarrow> Inr ((stopTracks stream s)\<lparr>error := message_or_String e\<rparr>)
      | Enumerates stream devices \<Rightarrow>
          (let videoInputs = filter (\<lambda>d. kind d = videoinput) devices
           in setSelectedDeviceId ro bo (defaultDeviceId videoInputs)
                (stopTracks stream (s\<lparr>cameras := videoInputs\<rparr>))))"

section \<open>Capture and download\<close>

datatype capture_outcome = ContextNull | CanvasThrows thrown | DataURL string

text \<open>Lines 112 to 131.\<close>

definition captureImage :: "capture_outcome \<Rightarrow> page \<Rightarrow> thrown + page" where
  "captureImage co s =
     (case videoRef s of
        None \<Rightarrow> Inr s
      | Some video \<Rightarrow>
          if \<not> scanning s then Inr s
          else try_catch
                 (case co of
                    CanvasThrows e \<Rightarrow> Inl e
                  | ContextNull \<Rightarrow> Inr (s\<lparr>error := ''Cannot create canvas context''\<rparr>)
                  | DataURL u \<Rightarrow> Inr (s\<lparr>capturedImage := u\<rparr>))
                 (\<lambda>e. Inr (s\<lparr>error := message_or_String e\<rparr>)))"

definition digit :: "nat \<Rightarrow> char" where
  "digit d = char_of (48 + d)"

fun decimal :: "nat \<Rightarrow> string" where
  "decimal n = (if n < 10 then [digit n] else decimal (n div 10) @ [digit (n mod 10)])"

declare decimal.simps [simp del]

text \<open>Lines 133 to 139: the name is built from \<^verbatim>\<open>Date.now()\<close> read when the function runs.\<close>

definition downloadImage :: "page \<Rightarrow> page" where
  "downloadImage s =
     (if capturedImage s = [] then s
      else s\<lparr>saved := saved s @ [(''capture-'' @ decimal (clock s) @ ''.png'', capturedImage s)]\<rparr>)"

section \<open>The mounted page as a transition system\<close>

text \<open>
  What can happen to a mounted page: the enumeration settles, the user picks an option
  of the selector, presses a button, the library reports a frame, time passes. A button
  that is rendered \<^verbatim>\<open>disabled\<close> does nothing, and the selector offers the listed cameras
  only (lines 147 to 159). The enumeration may settle more than once here, which only adds
  runs. Teardown (lines 19 to 23 and 64) ends the component and is not an event: it calls
  \<^verbatim>\<open>stopScanning\<close> and \<^verbatim>\<open>reset\<close> and binds nothing.
\<close>

datatype event =
    InitDevices init_outcome reset_outcome bind_outcome
  | SelectDevice string reset_outcome bind_outcome
  | ClickStart bind_outcome
  | ClickStop reset_outcome
  | ClickCapture capture_outcome
  | ClickDownload
  | ClickClear
  | Frame "Result option" "decode_error option"
  | Tick nat

definition bound_loops :: "page \<Rightarrow> string option list" where
  "bound_loops s = (case readerRef s of None \<Rightarrow> [] | Some r \<Rightarrow> loops r)"

fun step :: "event \<Rightarrow> page \<Rightarrow> thrown + page" where
  "step (InitDevices io ro bo) s = initDevices io ro bo s"
| "step (SelectDevice v ro bo) s =
     (if v \<in> set (map deviceId (cameras s)) then handleDeviceChange ro bo v s else Inr s)"
| "step (ClickStart bo) s =
     (if scanning s \<or> cameras s = [] then Inr s else startScanning bo (selectedDeviceId s) s)"
| "step (ClickStop ro) s = (if \<not> scanning s then Inr s else stopScanning ro s)"
| "step (ClickCapture co) s = (if \<not> scanning s then Inr s else captureImage co s)"
| "step ClickDownload s = Inr (downloadImage s)"
| "step ClickClear s = Inr (s\<lparr>capturedImage := []\<rparr>)"
| "step (Frame result err) s = Inr (if bound_loops s = [] then s else decodeCallback result err s)"
| "step (Tick t) s = Inr (s\<lparr>clock := clock s + t\<rparr>)"

fun run :: "event list \<Rightarrow> page \<Rightarrow> thrown + page" where
  "run [] s = Inr s"
| "run (e # es) s = and_then (step e s) (run es)"

text \<open>The page after its first render and its mount effects (lines 17 to 25, 60 to 61):
  a fresh reader, an empty video element, nothing selected.\<close>

definition mount :: "nat \<Rightarrow> page" where
  "mount t =
     \<lparr>videoRef = Some \<lparr>srcObject = None\<rparr>, readerRef = Some \<lparr>loops = []\<rparr>, cameras = [],
      selectedDeviceId = None, scanning = False, resultText = [], error = [],
      capturedImage = [], cleanup = False, ended = {}, saved = [], clock = t\<rparr>"

section \<open>Sample runs\<close>

text \<open>The scenario of the specification: a front and a back camera are enumerated, the
  back one is chosen and scanned, and a frame decodes to \<^verbatim>\<open>HELLO\<close>.\<close>

definition microphone :: MediaDeviceInfo where
  "microphone = \<lparr>deviceId = ''Mic'', label = ''Microphone'', kind = audioinput\<rparr>"

definition camA :: MediaDeviceInfo where
  "camA = \<lparr>deviceId = ''CamA'', label = ''Front Camera'', kind = videoinput\<rparr>"

definition camB :: MediaDeviceInfo where
  "camB = \<lparr>deviceId = ''CamB'', label = ''Back Camera (environment)'', kind = videoinput\<rparr>"

definition scenario :: "event list" where
  "scenario =
     [InitDevices (Enumerates (MediaStream [0]) [microphone, camA, camB]) ResetReturns
        (BindReturns (MediaStream [1, 2])),
      Frame (Some (Result ''HELLO'')) None]"

definition scanning_page :: page where
  "scanning_page =
     \<lparr>videoRef = Some \<lparr>srcObject = Some (MediaStream [1, 2])\<rparr>,
      readerRef = Some \<lparr>loops = [Some ''CamB'']\<rparr>, cameras = [camA, camB],
      selectedDeviceId = Some ''CamB'', scanning = True, resultText = ''HELLO'', error = [],
      capturedImage = [], cleanup = True, ended = {0}, saved = [], clock = 1000\<rparr>"

definition boom :: thrown where
  "boom = Thrown (Some ''Requested device not found'') ''NotFoundError: Requested device not found''"

text \<open>A back camera that reports no id, listed after a front camera.\<close>

definition front_cam :: MediaDeviceInfo where
  "front_cam = \<lparr>deviceId = ''cam-front'', label = ''Front Camera'', kind = videoinput\<rparr>"

definition unnamed_back_cam :: MediaDeviceInfo where
  "unnamed_back_cam = \<lparr>deviceId = [], label = ''Back Camera'', kind = videoinput\<rparr>"

text \<open>Two cameras, the first without an id: the empty id is selected, which is falsy,
  and the user presses Start.\<close>

definition webcam :: MediaDeviceInfo where
  "webcam = \<lparr>deviceId = [], label = ''Webcam'', kind = videoinput\<rparr>"

definition usb_cam :: MediaDeviceInfo where
  "usb_cam = \<lparr>deviceId = ''cam-b'', label = ''USB Camera'', kind = videoinput\<rparr>"



text \<open>A frame captured at time 1000 and downloaded at time 2000.\<close>

definition png :: string where
  "png = ''data:image/png;base64,iVBORw0KGgo=''"

definition captured_page :: page where
  "captured_page = scanning_page\<lparr>capturedImage := png\<rparr>"

definition downloaded_page :: page where
  "downloaded_page = captured_page\<lparr>clock := 2000, saved := [(''capture-2000.png'', png)]\<rparr>"

section \<open>Closed forms of the two lifecycle functions\<close>

lemma stopScanning_eq:
  "stopScanning ro s =
     Inr (s\<lparr>scanning := False,
            readerRef := (case ro of
                            ResetReturns \<Rightarrow> map_option (\<lambda>r. r\<lparr>loops := []\<rparr>) (readerRef s)
                          | ResetThrows e \<Rightarrow> readerRef s),
            ended := ended s \<union>
                       (case videoRef s of
                          None \<Rightarrow> {}
                        | Some v \<Rightarrow> (case srcObject v of None \<Rightarrow> {} | Some st \<Rightarrow> set (getTracks st))),
            videoRef := map_option (\<lambda>v. v\<lparr>srcObject := None\<rparr>) (videoRef s)\<rparr>)"
  by (auto simp: stopScanning_def reset_def try_catch_def and_then_def stopTracks_def Let_def
      split: option.splits reset_outcome.splits sum.splits)


section \<open>The reader lives as long as the page is mounted\<close>






section \<open>The sample runs, evaluated\<close>

lemma rear_test_samples:
  "rear_test (label camB)" "\<not> rear_test (label camA)" "rear_test (label unnamed_back_cam)"
  "\<not> rear_test (label front_cam)" "\<not> rear_test (label webcam)" "\<not> rear_test (label usb_cam)"
  by code_simp+



lemma capture_then_download_runs:
  "run (scenario @ [ClickCapture (DataURL png)]) (mount 1000) = Inr captured_page"
  "run [Tick 1000, ClickDownload] captured_page = Inr downloaded_page"
  by code_simp+

section \<open>Stopping\<close>

text \<open>
  Claim C2. Stopping twice gives what stopping once gives. Whatever the two calls of
  \<^verbatim>\<open>reset\<close> do, after the first call the page is not scanning and the video element has
  no stream, and the second call changes nothing outside the reader; when the first
  \<^verbatim>\<open>reset\<close> returned, or the second one threw too, the two pages are equal. On a page
  that is not scanning and has no stream attached, stopping changes nothing outside the
  reader, and nothing at all when no loop is bound.
\<close>

theorem stopScanning_idempotent:
  "\<exists>s1 s2. stopScanning ro1 s = Inr s1 \<and> stopScanning ro2 s1 = Inr s2 \<and>
     \<not> scanning s1 \<and> (\<forall>video. videoRef s1 = Some video \<longrightarrow> srcObject video = None) \<and>
     s2 = s1\<lparr>readerRef := readerRef s2\<rparr> \<and>
     (ro1 = ResetReturns \<or> ro2 \<noteq> ResetReturns \<longrightarrow> s2 = s1) \<and>
     (\<not> scanning s \<and> (\<forall>video. videoRef s = Some video \<longrightarrow> srcObject video = None)
        \<longrightarrow> s1 = s\<lparr>readerRef := readerRef s1\<rparr> \<and> (bound_loops s = [] \<longrightarrow> s1 = s))"
  apply (simp add: stopScanning_eq)
  apply (cases ro1; cases ro2; cases "videoRef s"; cases "readerRef s")
  apply (auto simp: bound_loops_def split: option.splits)
  done

theorem stopScanning_idempotent_witness:
  "\<exists>s1. stopScanning (ResetThrows boom) scanning_page = Inr s1 \<and>
        stopScanning (ResetThrows boom) s1 = Inr s1 \<and> \<not> scanning s1 \<and>
        videoRef s1 = Some \<lparr>srcObject = None\<rparr> \<and>
        stopScanning ResetReturns (mount 0) = Inr (mount 0)"
  using stopScanning_idempotent [of "ResetThrows boom" scanning_page "ResetThrows boom"]
    stopScanning_idempotent [of ResetReturns "mount 0" ResetReturns]
  by (auto simp: stopScanning_eq scanning_page_def mount_def bound_loops_def)

text \<open>
  Claim C3. A call of \<^verbatim>\<open>stopScanning\<close> returns a page whose video element has no stream,
  and every track of the stream that was attached before the call is stopped; no track
  that was stopped comes back.
\<close>

theorem stopScanning_detaches_stream:
  "\<exists>s'. stopScanning ro s = Inr s' \<and> ended s \<subseteq> ended s' \<and>
     (videoRef s = None \<longrightarrow> videoRef s' = None) \<and>
     (\<forall>video. videoRef s = Some video \<longrightarrow>
        videoRef s' = Some (video\<lparr>srcObject := None\<rparr>) \<and>
        (\<forall>stream. srcObject video = Some stream \<longrightarrow> set (getTracks stream) \<subseteq> ended s'))"
  by (auto simp: stopScanning_eq)

theorem stopScanning_detaches_stream_witness:
  "videoRef scanning_page = Some \<lparr>srcObject = Some (MediaStream [1, 2])\<rparr> \<and>
   (\<exists>s'. stopScanning ResetReturns scanning_page = Inr s' \<and>
      videoRef s' = Some \<lparr>srcObject = None\<rparr> \<and> ended s' = {0, 1, 2})"
  using stopScanning_detaches_stream [of ResetReturns scanning_page]
  by (auto simp: scanning_page_def stopScanning_eq)

text \<open>
  Claim C10. \<^verbatim>\<open>stopScanning\<close> always returns, never throws, leaves the page not scanning
  and the error message as it was, whatever \<^verbatim>\<open>reset\<close> does; when \<^verbatim>\<open>reset\<close> throws, the
  stream is still detached and its tracks are still stopped.
\<close>

theorem stopScanning_total_silent:
  "\<exists>s'. stopScanning ro s = Inr s' \<and> \<not> scanning s' \<and> error s' = error s \<and>
     (\<forall>video stream. videoRef s = Some video \<and> srcObject video = Some stream \<longrightarrow>
        videoRef s' = Some (video\<lparr>srcObject := None\<rparr>) \<and> set (getTracks stream) \<subseteq> ended s')"
  by (auto simp: stopScanning_eq)

theorem stopScanning_total_silent_witness:
  "\<exists>s'. stopScanning (ResetThrows boom) (scanning_page\<lparr>error := ''earlier''\<rparr>) = Inr s' \<and>
      \<not> scanning s' \<and> error s' = ''earlier'' \<and>
      videoRef s' = Some \<lparr>srcObject = None\<rparr> \<and> {1, 2} \<subseteq> ended s'"
  using stopScanning_total_silent [of "ResetThrows boom" "scanning_page\<lparr>error := ''earlier''\<rparr>"]
  by (auto simp: scanning_page_def stopScanning_eq)

section \<open>Starting\<close>



section \<open>The decode callback\<close>

text \<open>
  Claim C6. A callback that reports \<^verbatim>\<open>NotFoundException\<close> and no result leaves the page
  as it was, the error message and the decoded text in particular.
\<close>

theorem decodeCallback_not_found_unchanged:
  "decodeCallback None (Some NotFoundException) s = s \<and>
   error (decodeCallback None (Some NotFoundException) s) = error s \<and>
   resultText (decodeCallback None (Some NotFoundException) s) = resultText s"
  by (simp add: decodeCallback_def)

theorem decodeCallback_not_found_unchanged_witness:
  "decodeCallback None (Some NotFoundException) scanning_page = scanning_page \<and>
   resultText (decodeCallback None (Some NotFoundException) scanning_page) = ''HELLO''"
  using decodeCallback_not_found_unchanged [of scanning_page]
  by (simp add: scanning_page_def)

text \<open>
  Claim C7. A callback that delivers a result and no error sets the decoded text to the
  text of the result and keeps the error message; the payload \<^verbatim>\<open>ABC123\<close> gives the
  decoded text \<^verbatim>\<open>ABC123\<close>.
\<close>

theorem decodeCallback_sets_decoded_text:
  "resultText (decodeCallback (Some r) None s) = getText r \<and>
   error (decodeCallback (Some r) None s) = error s \<and>
   resultText (decodeCallback (Some (Result ''ABC123'')) None s) = ''ABC123''"
  by (simp add: decodeCallback_def)

theorem decodeCallback_sets_decoded_text_witness:
  "resultText (decodeCallback (Some (Result ''ABC123'')) None (scanning_page\<lparr>error := ''earlier''\<rparr>))
     = ''ABC123'' \<and>
   error (decodeCallback (Some (Result ''ABC123'')) None (scanning_page\<lparr>error := ''earlier''\<rparr>))
     = ''earlier''"
  using decodeCallback_sets_decoded_text [of "Result ''ABC123''" "scanning_page\<lparr>error := ''earlier''\<rparr>"]
  by simp

section \<open>Capture\<close>

text \<open>
  Claim C8. While the page is not scanning, \<^verbatim>\<open>captureImage\<close> returns the page as it was,
  whatever the canvas would have done: the captured image and the error message are
  unchanged and nothing is thrown.
\<close>

theorem captureImage_idle_noop:
  "\<not> scanning s \<Longrightarrow> captureImage co s = Inr s"
  by (simp add: captureImage_def split: option.splits)

theorem captureImage_idle_noop_witness:
  "\<not> scanning (mount 0) \<and> captureImage (DataURL png) (mount 0) = Inr (mount 0) \<and>
   capturedImage (mount 0) = []"
proof -
  have idle: "\<not> scanning (mount 0)" by (simp add: mount_def)
  from captureImage_idle_noop [OF idle, of "DataURL png"] idle show ?thesis
    by (simp add: mount_def)
qed

section \<open>The default camera\<close>

lemma backCam_first_match:
  assumes "i < length vs" "rear_test (label (vs ! i))" "\<forall>j<i. \<not> rear_test (label (vs ! j))"
  shows "backCam vs = Some (vs ! i)"
  unfolding backCam_def find_Some_iff using assms by blast

lemma backCam_no_match:
  "\<forall>d \<in> set vs. \<not> rear_test (label d) \<Longrightarrow> backCam vs = None"
  by (simp add: backCam_def find_None_iff)

text \<open>
  Claim C4, as amended. When some label matches and the first entry that matches has a
  non-empty id, that entry's id is selected. When the first entry that matches has an
  empty id, or no label matches, the id of the first entry of the list is selected.
  For the empty list nothing is selected.
\<close>

theorem defaultDeviceId_selection:
  "(\<forall>i. i < length vs \<and> rear_test (label (vs ! i)) \<and> (\<forall>j<i. \<not> rear_test (label (vs ! j)))
        \<longrightarrow> defaultDeviceId vs =
              (if deviceId (vs ! i) \<noteq> [] then Some (deviceId (vs ! i)) else Some (deviceId (hd vs))))
   \<and> ((\<forall>d \<in> set vs. \<not> rear_test (label d)) \<and> vs \<noteq> []
        \<longrightarrow> defaultDeviceId vs = Some (deviceId (hd vs)))
   \<and> (vs = [] \<longrightarrow> defaultDeviceId vs = None)"
proof (intro conjI allI impI)
  fix i
  assume a: "i < length vs \<and> rear_test (label (vs ! i)) \<and> (\<forall>j<i. \<not> rear_test (label (vs ! j)))"
  then have "backCam vs = Some (vs ! i)" by (simp add: backCam_first_match)
  moreover from a have "vs \<noteq> []" by auto
  ultimately show "defaultDeviceId vs =
      (if deviceId (vs ! i) \<noteq> [] then Some (deviceId (vs ! i)) else Some (deviceId (hd vs)))"
    by (cases vs) (simp_all add: defaultDeviceId_def first_deviceId_def)
next
  assume "(\<forall>d \<in> set vs. \<not> rear_test (label d)) \<and> vs \<noteq> []"
  then show "defaultDeviceId vs = Some (deviceId (hd vs))"
    by (cases vs) (simp_all add: defaultDeviceId_def first_deviceId_def backCam_no_match)
next
  assume "vs = []"
  then show "defaultDeviceId vs = None"
    by (simp add: defaultDeviceId_def first_deviceId_def backCam_def)
qed

theorem defaultDeviceId_selection_witness:
  "rear_test (label ([camA, camB] ! 1)) \<and> \<not> rear_test (label ([camA, camB] ! 0)) \<and>
   defaultDeviceId [camA, camB] = Some ''CamB'' \<and>
   defaultDeviceId [front_cam, usb_cam] = Some ''cam-front'' \<and>
   defaultDeviceId [] = None"
proof -
  have m: "rear_test (label ([camA, camB] ! 1))" "\<not> rear_test (label ([camA, camB] ! 0))"
    using rear_test_samples by simp_all
  have n: "\<forall>d \<in> set [front_cam, usb_cam]. \<not> rear_test (label d)"
    using rear_test_samples by simp
  have "deviceId ([camA, camB] ! 1) = ''CamB''" by (simp add: camB_def)
  moreover have "deviceId (hd [front_cam, usb_cam]) = ''cam-front''" by (simp add: front_cam_def)
  moreover have "\<forall>j<1::nat. \<not> rear_test (label ([camA, camB] ! j))" using m(2) by simp
  ultimately show ?thesis
    using defaultDeviceId_selection [of "[camA, camB]"]
      defaultDeviceId_selection [of "[front_cam, usb_cam]"]
      defaultDeviceId_selection [of "[]"] m n
    by (auto simp del: One_nat_def)
qed

text \<open>The claim as it was written fails where the first camera whose label matches
  reports an empty id: the front camera is selected, not the matching entry.\<close>

theorem defaultDeviceId_skips_back_camera_without_id:
  "\<not> rear_test (label front_cam) \<and> rear_test (label unnamed_back_cam) \<and>
   backCam [front_cam, unnamed_back_cam] = Some unnamed_back_cam \<and>
   defaultDeviceId [front_cam, unnamed_back_cam] = Some (deviceId front_cam) \<and>
   defaultDeviceId [front_cam, unnamed_back_cam] \<noteq> Some (deviceId unnamed_back_cam)"
  by (simp add: rear_test_samples defaultDeviceId_def backCam_def first_deviceId_def)
     (simp add: front_cam_def unnamed_back_cam_def)

section \<open>Download\<close>

lemma startsWith_append: "startsWith (p @ rest) p"
  by (induction p) simp_all

lemma occurs_in_middle: "occurs_in (before @ p @ rest) p"
proof (induction before)
  case Nil
  show ?case by (cases "p @ rest") (use startsWith_append [of p rest] in auto)
next
  case (Cons c before)
  then show ?case by simp
qed

text \<open>
  Claim C9, as amended. With a captured image, \<^verbatim>\<open>downloadImage\<close> asks the browser to save
  that image under \<^verbatim>\<open>capture-N.png\<close>, where \<^verbatim>\<open>N\<close> is the decimal reading of the clock at the
  moment of the download, and changes nothing else. Without a captured image it does
  nothing.
\<close>

theorem downloadImage_saves_under_download_time:
  "(capturedImage s \<noteq> [] \<longrightarrow>
      downloadImage s =
        s\<lparr>saved := saved s @ [(''capture-'' @ decimal (clock s) @ ''.png'', capturedImage s)]\<rparr> \<and>
      occurs_in (''capture-'' @ decimal (clock s) @ ''.png'') (decimal (clock s)))
   \<and> (capturedImage s = [] \<longrightarrow> downloadImage s = s \<and> saved (downloadImage s) = saved s)"
  using occurs_in_middle [of "''capture-''" "decimal (clock s)" "''.png''"]
  by (simp add: downloadImage_def)

theorem downloadImage_saves_under_download_time_witness:
  "capturedImage captured_page \<noteq> [] \<and>
   saved (downloadImage (captured_page\<lparr>clock := 2000\<rparr>)) = [(''capture-2000.png'', png)] \<and>
   capturedImage (mount 0) = [] \<and> saved (downloadImage (mount 0)) = []"
proof -
  have d: "decimal 2000 = ''2000''" by code_simp
  have c: "capturedImage (captured_page\<lparr>clock := 2000\<rparr>) \<noteq> []" "capturedImage (mount 0) = []"
    by (simp_all add: captured_page_def png_def mount_def)
  from downloadImage_saves_under_download_time [of "captured_page\<lparr>clock := 2000\<rparr>"]
    downloadImage_saves_under_download_time [of "mount 0"] c d
  show ?thesis
    by (simp add: captured_page_def scanning_page_def mount_def)
qed

text \<open>The claim as it was written fails when time passes between the capture and the
  download: the frame is captured at 1000, the file is saved at 2000 and its name holds
  2000, not 1000.\<close>

theorem downloadImage_name_is_not_capture_time:
  "run (scenario @ [ClickCapture (DataURL png)]) (mount 1000) = Inr captured_page \<and>
   clock captured_page = 1000 \<and> capturedImage captured_page = png \<and>
   run [Tick 1000, ClickDownload] captured_page = Inr downloaded_page \<and>
   saved downloaded_page = [(''capture-2000.png'', png)] \<and>
   \<not> occurs_in ''capture-2000.png'' (decimal 1000)"
proof -
  have a: "clock captured_page = 1000" "capturedImage captured_page = png"
    by (simp_all add: captured_page_def scanning_page_def)
  have b: "saved downloaded_page = [(''capture-2000.png'', png)]"
    by (simp add: downloaded_page_def)
  have c: "\<not> occurs_in ''capture-2000.png'' (decimal 1000)" by code_simp
  from capture_then_download_runs a b c show ?thesis by (intro conjI)
qed

section \<open>Changing the device\<close>




end
